theory Spec2Isabelle
  imports Complex_Main "HOL-Library.AList"
begin

section \<open>JavaScript values and the operations the entry points use\<close>

text \<open>
  The two entry points, \<^verbatim>\<open>src/bin/TilePlanner.js\<close> and \<^verbatim>\<open>src/bin/Cli.js\<close>, handle
  values that come out of \<^verbatim>\<open>JSON.parse\<close> and out of the routing library: they are modelled
  by one datatype. An object is an association list whose first binding of a key is the
  live one. An array carries its elements and, since a JavaScript array is an object, the
  named properties that were assigned to it. A string is held as its UTF-8 bytes, which
  is what a request URL is made of; \<^verbatim>\<open>length\<close> and \<^verbatim>\<open>v[i]\<close> count UTF-16 code units, as
  JavaScript does.
\<close>

datatype jsval =
    JUndefined
  | JNull
  | JBool bool
  | JNum real
  | JStr string
  | JArr "jsval list" "(string \<times> jsval) list"
  | JObj "(string \<times> jsval) list"

text \<open>
  The errors a run can end with. \<open>TypeError\<close> is the one the JavaScript runtime raises
  when a property of \<^verbatim>\<open>undefined\<close> or \<^verbatim>\<open>null\<close> is read or set, when a property is
  created on a primitive in strict mode (both files are ES modules), or when a value that
  is not a function is called; its message names the property, never program data.
  \<open>ReferenceError\<close> is the one it raises when a \<^verbatim>\<open>const\<close> is read before its
  declaration has run. \<open>External\<close> is an error raised by a collaborator (network, file
  system, JSON decoding, the WKT decoder, the routing library), with that collaborator's
  own message.
\<close>

datatype error = TypeError | ReferenceError | External string

text \<open>\<^verbatim>\<open>if (v)\<close>: the truthiness of a value.\<close>

fun truthy :: "jsval \<Rightarrow> bool" where
  "truthy JUndefined = False"
| "truthy JNull = False"
| "truthy (JBool b) = b"
| "truthy (JNum n) = (n \<noteq> 0)"
| "truthy (JStr s) = (s \<noteq> [])"
| "truthy (JArr xs ps) = True"
| "truthy (JObj fs) = True"

text \<open>
  The UTF-16 code units of a string, each as a string of its own. A character of one,
  two or three bytes is one code unit. A character of four bytes is a surrogate pair: its
  code point less \<open>0x10000\<close> gives ten bits to the high surrogate (from \<open>0xD800\<close>) and
  ten bits to the low one (from \<open>0xDC00\<close>), and a surrogate on its own is written with the
  three bytes its code point would take. The bytes are taken to be well-formed UTF-8.
\<close>

definition three_bytes :: "nat \<Rightarrow> string" where
  "three_bytes x =
     [char_of (224 + x div 4096), char_of (128 + x div 64 mod 64), char_of (128 + x mod 64)]"

fun surrogate_pair :: "string \<Rightarrow> string list" where
  "surrogate_pair [b0, b1, b2, b3] =
     (let cp = (of_char b0 mod 8) * 262144 + (of_char b1 mod 64) * 4096
                 + (of_char b2 mod 64) * 64 + of_char b3 mod 64;
          v = cp - 65536
      in [three_bytes (55296 + v div 1024), three_bytes (56320 + v mod 1024)])"
| "surrogate_pair bs = [bs]"

fun code_units :: "string \<Rightarrow> string list" where
  "code_units [] = []"
| "code_units (c # cs) =
     (if (of_char c :: nat) < 192 then [c] # code_units cs
      else if (of_char c :: nat) < 224 then (c # take 1 cs) # code_units (drop 1 cs)
      else if (of_char c :: nat) < 240 then (c # take 2 cs) # code_units (drop 2 cs)
      else surrogate_pair (c # take 3 cs) @ code_units (drop 3 cs))"

definition lookup :: "(string \<times> jsval) list \<Rightarrow> string \<Rightarrow> jsval" where
  "lookup fs p = (case map_of fs p of None \<Rightarrow> JUndefined | Some v \<Rightarrow> v)"

text \<open>
  \<^verbatim>\<open>v.p\<close> for an identifier \<open>p\<close>: own properties, and \<^verbatim>\<open>length\<close> of strings and arrays.
  The inherited methods the programs call (\<^verbatim>\<open>forEach\<close>, \<^verbatim>\<open>map\<close>) are handled where they
  are called.
\<close>

fun get_prop :: "jsval \<Rightarrow> string \<Rightarrow> error + jsval" where
  "get_prop JUndefined p = Inl TypeError"
| "get_prop JNull p = Inl TypeError"
| "get_prop (JBool b) p = Inr JUndefined"
| "get_prop (JNum n) p = Inr JUndefined"
| "get_prop (JStr s) p =
     Inr (if p = ''length'' then JNum (real (length (code_units s))) else JUndefined)"
| "get_prop (JArr xs ps) p =
     Inr (if p = ''length'' then JNum (real (length xs)) else lookup ps p)"
| "get_prop (JObj fs) p = Inr (lookup fs p)"

text \<open>The property key of an array index: its decimal digits.\<close>

definition digit_char :: "nat \<Rightarrow> char" where
  "digit_char d = ''0123456789'' ! (d mod 10)"

function index_key :: "nat \<Rightarrow> string" where
  "index_key i =
     (if i div 10 = 0 then [digit_char i] else index_key (i div 10) @ [digit_char i])"
  by pat_completeness auto
termination
  by (relation "measure (\<lambda>i. i)") auto

declare index_key.simps [simp del]

text \<open>\<^verbatim>\<open>v[i]\<close> for a numeric literal \<open>i\<close>.\<close>

fun get_index :: "jsval \<Rightarrow> nat \<Rightarrow> error + jsval" where
  "get_index JUndefined i = Inl TypeError"
| "get_index JNull i = Inl TypeError"
| "get_index (JBool b) i = Inr JUndefined"
| "get_index (JNum n) i = Inr JUndefined"
| "get_index (JStr s) i =
     Inr (if i < length (code_units s) then JStr (code_units s ! i) else JUndefined)"
| "get_index (JArr xs ps) i = Inr (if i < length xs then xs ! i else JUndefined)"
| "get_index (JObj fs) i = Inr (lookup fs (index_key i))"

text \<open>\<^verbatim>\<open>v.coordinates = c\<close> in strict mode; the value returned is \<open>v\<close> after the assignment.\<close>

fun set_coordinates :: "jsval \<Rightarrow> jsval \<Rightarrow> error + jsval" where
  "set_coordinates (JObj fs) c = Inr (JObj (AList.update ''coordinates'' c fs))"
| "set_coordinates (JArr xs ps) c = Inr (JArr xs (AList.update ''coordinates'' c ps))"
| "set_coordinates v c = Inl TypeError"

subsection \<open>String methods\<close>

text \<open>\<^verbatim>\<open>s.endsWith(suf)\<close>.\<close>

definition endsWith :: "string \<Rightarrow> string \<Rightarrow> bool" where
  "endsWith s suf = (length suf \<le> length s \<and> drop (length s - length suf) s = suf)"

text \<open>
  \<^verbatim>\<open>s.substring(a, b)\<close>: both indices are clamped to \<open>0 .. length s\<close> and swapped when
  out of order.
\<close>

definition substring :: "string \<Rightarrow> int \<Rightarrow> int \<Rightarrow> string" where
  "substring s a b =
     (let n = int (length s);
          a' = max 0 (min a n);
          b' = max 0 (min b n);
          lo = min a' b';
          hi = max a' b'
      in take (nat (hi - lo)) (drop (nat lo) s))"

text \<open>
  \<^verbatim>\<open>encodeURIComponent(s)\<close> on the UTF-8 bytes of \<open>s\<close>: every byte other than an ASCII
  letter, a digit or one of \<^verbatim>\<open>- _ . ! ~ * ' ( )\<close> becomes \<^verbatim>\<open>%XX\<close> in upper-case
  hexadecimal. (A lone surrogate, on which the built-in raises, has no UTF-8 form.)
\<close>

definition uri_unreserved :: "char \<Rightarrow> bool" where
  "uri_unreserved c =
     (c \<in> set ''ABCDEFGHIJKLMNOPQRSTUVWXYZabcdefghijklmnopqrstuvwxyz0123456789-_.!~*()''
      \<or> c = CHR 0x27)"

definition hex_digit :: "nat \<Rightarrow> char" where
  "hex_digit n = ''0123456789ABCDEF'' ! (n mod 16)"

definition pct_encode :: "char \<Rightarrow> string" where
  "pct_encode c =
     (if uri_unreserved c then [c]
      else [CHR ''%'', hex_digit (of_char c div 16), hex_digit (of_char c mod 16)])"

definition encodeURIComponent :: "string \<Rightarrow> string" where
  "encodeURIComponent s = concat (map pct_encode s)"

section \<open>The tile interface base URL\<close>

text \<open>
  Both entry points start with
  \<^verbatim>\<open>tiles = opts.tiles.endsWith("/") ? opts.tiles.substring(0, opts.tiles.length - 1) : opts.tiles\<close>.
\<close>

definition tiles_base :: "string \<Rightarrow> string" where
  "tiles_base t =
     (if endsWith t ''/'' then substring t 0 (int (length t) - 1) else t)"

section \<open>Command-line options\<close>

text \<open>
  What \<^verbatim>\<open>commander\<close> hands to each entry point. The four required options are always
  present (the parser refuses a command line without them); an optional one is \<open>None\<close>
  when it was not supplied, and a flag is a boolean.
\<close>

record TilePlanner_args =
  tp_from :: string
  tp_to :: string
  tp_zoom :: string
  tp_tiles :: string
  tp_threshold :: "string option"
  tp_algorithm :: "string option"
  tp_nodeWeighted :: bool
  tp_debug :: bool

record Cli_args =
  cli_from :: string
  cli_to :: string
  cli_zoom :: string
  cli_tiles :: string
  cli_algorithm :: "string option"
  cli_index :: "string option"
  cli_debug :: bool

text \<open>
  \<^verbatim>\<open>.option("-a, --algorithm <algorithm>", "...", "NBA*")\<close>, the same line in both files:
  the third argument is the value of \<^verbatim>\<open>opts().algorithm\<close> when the option is absent.
\<close>

definition opts_algorithm :: "string option \<Rightarrow> string" where
  "opts_algorithm supplied = (case supplied of None \<Rightarrow> ''NBA*'' | Some s \<Rightarrow> s)"

text \<open>\<^verbatim>\<open>Utils.getLogger(opts().debug ? "debug" : "info")\<close>: the logger is known by its level.\<close>

definition logger_level :: "bool \<Rightarrow> string" where
  "logger_level debug = (if debug then ''debug'' else ''info'')"

section \<open>Engines, cost functions and the collaborators\<close>

datatype engine_class = Dijkstra | AStar | NBAStar

text \<open>
  The function values the entry points pass to an engine: a member of the \<^verbatim>\<open>Utils\<close>
  module read by name, \<^verbatim>\<open>(node) => { return node.cost }\<close> and
  \<^verbatim>\<open>(node) => { return node.length }\<close>.
\<close>

datatype fnval = Utils_member string | Node_cost | Node_length

text \<open>
  An engine is the class and the options object its constructor was given (\<^verbatim>\<open>NG\<close> is
  always a fresh \<^verbatim>\<open>new NetworkGraph()\<close> and is left out), together with the
  threshold of a completed \<^verbatim>\<open>loadTileQuadTree\<close> call, if any. The calls that only build
  a value (\<^verbatim>\<open>Utils.getLogger\<close>, \<^verbatim>\<open>new NetworkGraph()\<close>, the engine constructors) are
  taken to return it.
\<close>

record engine =
  cls :: engine_class
  zoom :: string
  tilesBaseURL :: string
  distance :: fnval
  heuristic :: "fnval option"
  logger :: string
  quadtree_loaded :: "string option option"

text \<open>
  Everything outside \<^verbatim>\<open>src/bin\<close> is a parameter of a run:
  \<^item> \<open>isValidHttpUrl\<close>: \<^verbatim>\<open>Utils.isValidHttpUrl\<close>;
  \<^item> \<open>fetch\<close>: \<^verbatim>\<open>fetch(url)\<close> followed by \<^verbatim>\<open>.json()\<close> on the response; the outer error
    is a rejected request, the inner one a body that does not decode;
  \<^item> \<open>readIndex\<close>: the \<^verbatim>\<open>Map\<close> built from the parsed index file, or the error of
    reading, parsing or building it;
  \<^item> \<open>wktParse\<close>: the \<^verbatim>\<open>parse\<close> function of \<^verbatim>\<open>wellknown\<close>;
  \<^item> \<open>utils_member\<close>: the function-valued members of \<^verbatim>\<open>Utils\<close>, by name;
  \<^item> \<open>loadTileQuadTree\<close>, \<open>findPath\<close>: the engine methods of \<^verbatim>\<open>lib/\<close>.
\<close>

record env =
  isValidHttpUrl :: "string \<Rightarrow> bool"
  fetch :: "string \<Rightarrow> error + (error + jsval)"
  readIndex :: "string \<Rightarrow> error + (string \<rightharpoonup> jsval)"
  wktParse :: "jsval \<Rightarrow> error + jsval"
  utils_member :: "string \<Rightarrow> (jsval list \<Rightarrow> error + jsval) option"
  loadTileQuadTree :: "engine \<Rightarrow> string option \<Rightarrow> error + unit"
  findPath :: "engine \<Rightarrow> jsval \<Rightarrow> jsval \<Rightarrow> error + jsval"

definition arg0 :: "jsval list \<Rightarrow> jsval" where
  "arg0 args = (case args of [] \<Rightarrow> JUndefined | x # _ \<Rightarrow> x)"

text \<open>Calling a function value on an argument list.\<close>

fun call_fn :: "env \<Rightarrow> fnval \<Rightarrow> jsval list \<Rightarrow> error + jsval" where
  "call_fn env (Utils_member n) args =
     (case utils_member env n of None \<Rightarrow> Inl TypeError | Some f \<Rightarrow> f args)"
| "call_fn env Node_cost args = get_prop (arg0 args) ''cost''"
| "call_fn env Node_length args = get_prop (arg0 args) ''length''"

section \<open>Runs: observable events and how a run ends\<close>

text \<open>
  The calls a run makes to the outside, in order. A log or console call whose text is
  built from values keeps the values: \<open>LogInfo_route l1 l2 alg\<close> is
  \<^verbatim>\<open>logger.info(`Calculating route from ${l1} to ${l2} using ${alg} algorithm`)\<close>,
  \<open>ConsoleLog_path\<close> lists the pairs \<open>(i + 1, p.id)\<close> printed as \<^verbatim>\<open>`${i + 1}. ${p.id}`\<close>,
  \<open>ConsoleLog_linestring\<close> the pairs of coordinates of the \<^verbatim>\<open>LINESTRING\<close>. The
  conversion of such a value to text is not carried out.
\<close>

datatype event =
    LogError string
  | LogError_value error
  | LogDebug string
  | LogInfo_route jsval jsval string
  | HttpGet string
  | ReadFile string
  | New engine
  | LoadTileQuadTree engine "string option"
  | FindPath engine jsval jsval
  | ConsoleLog string
  | ConsoleLog_path "(nat \<times> jsval) list"
  | ConsoleLog_linestring "(jsval \<times> jsval) list"
  | ConsoleLog_metadata jsval

text \<open>
  A step returns a value, ends the process (\<^verbatim>\<open>process.exit()\<close>) or throws; \<^verbatim>\<open>run\<close> is
  an \<^verbatim>\<open>async\<close> function without a handler, so a throw ends the run.
\<close>

datatype 'a outcome = Ok 'a | Exited | Threw error

type_synonym 'a io = "event list \<times> 'a outcome"

definition return_io :: "'a \<Rightarrow> 'a io" where
  "return_io a = ([], Ok a)"

definition emit :: "event \<Rightarrow> unit io" where
  "emit ev = ([ev], Ok ())"

definition exit_io :: "'a io" where
  "exit_io = ([], Exited)"

definition lift :: "error + 'a \<Rightarrow> 'a io" where
  "lift r = (case r of Inl e \<Rightarrow> ([], Threw e) | Inr a \<Rightarrow> ([], Ok a))"

definition bind_io :: "'a io \<Rightarrow> ('a \<Rightarrow> 'b io) \<Rightarrow> 'b io" where
  "bind_io m f =
     (case snd m of
        Ok a \<Rightarrow> (fst m @ fst (f a), snd (f a))
      | Exited \<Rightarrow> (fst m, Exited)
      | Threw e \<Rightarrow> (fst m, Threw e))"

text \<open>\<^verbatim>\<open>try { m } catch (err) { h err }\<close>.\<close>

definition catch_io :: "'a io \<Rightarrow> (error \<Rightarrow> 'a io) \<Rightarrow> 'a io" where
  "catch_io m h =
     (case snd m of
        Threw e \<Rightarrow> (fst m @ fst (h e), snd (h e))
      | _ \<Rightarrow> m)"

definition bind_err :: "error + 'a \<Rightarrow> ('a \<Rightarrow> error + 'b) \<Rightarrow> error + 'b" where
  "bind_err r f = (case r of Inl e \<Rightarrow> Inl e | Inr a \<Rightarrow> f a)"

section \<open>The steps shared by the two entry points\<close>

text \<open>
  \<^verbatim>\<open>if (!Utils.isValidHttpUrl(opts.tiles)) { logger.error(...); process.exit(); }\<close>:
  the check reads the option as given, not the stripped base.
\<close>

definition check_tiles :: "env \<Rightarrow> string \<Rightarrow> unit io" where
  "check_tiles env t =
     (if \<not> isValidHttpUrl env t
      then bind_io (emit (LogError (''Tile interface '' @ t @ '' is not a valid HTTP URL'')))
             (\<lambda>_. exit_io)
      else return_io ())"

text \<open>
  \<^verbatim>\<open>await Promise.all([(await fetch(a)).json(), (await fetch(b)).json()])\<close>: the array is
  built left to right, so the second request is sent once the first has answered, and
  both bodies are awaited after that. When neither body decodes, the error kept here is
  that of the first one.
\<close>

definition resolve_remote :: "env \<Rightarrow> string \<Rightarrow> string \<Rightarrow> (jsval \<times> jsval) io" where
  "resolve_remote env a b =
     bind_io (emit (HttpGet a)) (\<lambda>_.
     bind_io (lift (fetch env a)) (\<lambda>ra.
     bind_io (emit (HttpGet b)) (\<lambda>_.
     bind_io (lift (fetch env b)) (\<lambda>rb.
     bind_io (lift ra) (\<lambda>FROM.
     bind_io (lift rb) (\<lambda>TO.
     return_io (FROM, TO)))))))"

text \<open>The right-hand side \<^verbatim>\<open>wktParse(L.wkt).coordinates\<close>.\<close>

definition wkt_coordinates :: "env \<Rightarrow> jsval \<Rightarrow> error + jsval" where
  "wkt_coordinates env L =
     bind_err (get_prop L ''wkt'') (\<lambda>w.
     bind_err (wktParse env w) (\<lambda>g.
     get_prop g ''coordinates''))"

text \<open>\<^verbatim>\<open>L.coordinates = wktParse(L.wkt).coordinates\<close>; the result is \<open>L\<close> afterwards.\<close>

definition decode_coordinates :: "env \<Rightarrow> jsval \<Rightarrow> error + jsval" where
  "decode_coordinates env L = bind_err (wkt_coordinates env L) (set_coordinates L)"

definition log_route :: "jsval \<Rightarrow> jsval \<Rightarrow> string \<Rightarrow> unit io" where
  "log_route FROM TO alg =
     bind_io (lift (get_prop FROM ''label'')) (\<lambda>l1.
     bind_io (lift (get_prop TO ''label'')) (\<lambda>l2.
     emit (LogInfo_route l1 l2 alg)))"

definition call_findPath :: "env \<Rightarrow> engine \<Rightarrow> jsval \<Rightarrow> jsval \<Rightarrow> jsval io" where
  "call_findPath env e FROM TO =
     bind_io (emit (FindPath e FROM TO)) (\<lambda>_. lift (findPath env e FROM TO))"

section \<open>\<^verbatim>\<open>src/bin/TilePlanner.js\<close>\<close>

definition location_url_TilePlanner :: "string \<Rightarrow> string \<Rightarrow> string" where
  "location_url_TilePlanner tiles ident = tiles @ ''/location?id='' @ encodeURIComponent ident"

text \<open>
  \<^verbatim>\<open>const distance = opts.nodeWeighted ? (node) => { return node.cost } : Utils.haversineDistance\<close>
\<close>

definition distance_TilePlanner :: "bool \<Rightarrow> fnval" where
  "distance_TilePlanner nodeWeighted =
     (if nodeWeighted then Node_cost else Utils_member ''haversineDistance'')"

text \<open>The \<^verbatim>\<open>switch\<close> on the algorithm name; it has no default case, so \<open>None\<close> is
  \<^verbatim>\<open>tilePlanner\<close> still \<^verbatim>\<open>null\<close>.\<close>

definition switch_TilePlanner :: "TilePlanner_args \<Rightarrow> string \<Rightarrow> engine option" where
  "switch_TilePlanner a tiles =
     (let alg = opts_algorithm (tp_algorithm a);
          d = distance_TilePlanner (tp_nodeWeighted a);
          lg = logger_level (tp_debug a)
      in if alg = ''Dijkstra'' then
           Some \<lparr>cls = Dijkstra, zoom = tp_zoom a, tilesBaseURL = tiles, distance = d,
                 heuristic = None, logger = lg, quadtree_loaded = None\<rparr>
         else if alg = ''A*'' then
           Some \<lparr>cls = AStar, zoom = tp_zoom a, tilesBaseURL = tiles, distance = d,
                 heuristic = Some (Utils_member ''haversineDistance''), logger = lg,
                 quadtree_loaded = None\<rparr>
         else if alg = ''NBA*'' then
           Some \<lparr>cls = NBAStar, zoom = tp_zoom a, tilesBaseURL = tiles, distance = d,
                 heuristic = Some (Utils_member ''haversineDistance''), logger = lg,
                 quadtree_loaded = None\<rparr>
         else None)"

definition construct_TilePlanner :: "TilePlanner_args \<Rightarrow> string \<Rightarrow> engine option io" where
  "construct_TilePlanner a tiles =
     (case switch_TilePlanner a tiles of
        None \<Rightarrow> return_io None
      | Some e \<Rightarrow> bind_io (emit (New e)) (\<lambda>_. return_io (Some e)))"

text \<open>\<^verbatim>\<open>await tilePlanner.loadTileQuadTree(opts.threshold)\<close>, on whatever the switch left.\<close>

definition call_loadTileQuadTree :: "env \<Rightarrow> engine option \<Rightarrow> string option \<Rightarrow> engine io" where
  "call_loadTileQuadTree env tilePlanner threshold =
     (case tilePlanner of
        None \<Rightarrow> lift (Inl TypeError)
      | Some e \<Rightarrow>
          bind_io (emit (LoadTileQuadTree e threshold)) (\<lambda>_.
          bind_io (lift (loadTileQuadTree env e threshold)) (\<lambda>_.
          return_io (e\<lparr>quadtree_loaded := Some threshold\<rparr>))))"

text \<open>The body of \<^verbatim>\<open>shortestPath.path.forEach((p, i) => ...)\<close>, from index \<open>i\<close> on.\<close>

fun collect_TilePlanner ::
  "nat \<Rightarrow> jsval list \<Rightarrow> error + ((nat \<times> jsval) list \<times> (jsval \<times> jsval) list)" where
  "collect_TilePlanner i [] = Inr ([], [])"
| "collect_TilePlanner i (p # ps) =
     bind_err (get_prop p ''id'') (\<lambda>ident.
     bind_err (get_prop p ''coordinates'') (\<lambda>c.
     bind_err (get_index c 0) (\<lambda>c0.
     bind_err (get_index c 1) (\<lambda>c1.
     bind_err (collect_TilePlanner (Suc i) ps) (\<lambda>(path, linestring).
     Inr ((i + 1, ident) # path, (c0, c1) # linestring))))))"

text \<open>
  \<^verbatim>\<open>if (shortestPath) { ... three console.log ... } else { console.log("No path was found :(") }\<close>.
  Only an array without an own \<^verbatim>\<open>forEach\<close> property has the \<^verbatim>\<open>forEach\<close> method.
\<close>

definition report_TilePlanner :: "jsval \<Rightarrow> unit io" where
  "report_TilePlanner shortestPath =
     (if truthy shortestPath then
        bind_io (lift (get_prop shortestPath ''path'')) (\<lambda>pv.
        bind_io (lift (case pv of
                         JArr ps props \<Rightarrow>
                           if map_of props ''forEach'' = None then collect_TilePlanner 0 ps
                           else Inl TypeError
                       | _ \<Rightarrow> Inl TypeError)) (\<lambda>(path, linestring).
        bind_io (emit (ConsoleLog_path path)) (\<lambda>_.
        bind_io (emit (ConsoleLog_linestring linestring)) (\<lambda>_.
        bind_io (lift (get_prop shortestPath ''metadata'')) (\<lambda>m.
        emit (ConsoleLog_metadata m))))))
      else emit (ConsoleLog ''No path was found :(''))"

definition run_TilePlanner :: "env \<Rightarrow> TilePlanner_args \<Rightarrow> unit io" where
  "run_TilePlanner env a =
     (let tiles = tiles_base (tp_tiles a) in
      bind_io (check_tiles env (tp_tiles a)) (\<lambda>_.
      bind_io (emit (LogDebug ''Resolving locations from location API'')) (\<lambda>_.
      bind_io (resolve_remote env (location_url_TilePlanner tiles (tp_from a))
                                  (location_url_TilePlanner tiles (tp_to a))) (\<lambda>(FROM0, TO0).
      bind_io (lift (decode_coordinates env FROM0)) (\<lambda>FROM.
      bind_io (lift (decode_coordinates env TO0)) (\<lambda>TO.
      bind_io (log_route FROM TO (opts_algorithm (tp_algorithm a))) (\<lambda>_.
      bind_io (construct_TilePlanner a tiles) (\<lambda>tilePlanner.
      bind_io (call_loadTileQuadTree env tilePlanner (tp_threshold a)) (\<lambda>e.
      bind_io (call_findPath env e FROM TO) report_TilePlanner)))))))))"

section \<open>\<^verbatim>\<open>src/bin/Cli.js\<close>\<close>

definition location_url_Cli :: "string \<Rightarrow> string \<Rightarrow> string" where
  "location_url_Cli tiles ident = tiles @ ''/location/'' @ encodeURIComponent ident"

text \<open>\<^verbatim>\<open>if (opts.index)\<close>: an absent option and the empty string are both falsy.\<close>

definition index_path :: "Cli_args \<Rightarrow> string option" where
  "index_path a =
     (case cli_index a of None \<Rightarrow> None | Some p \<Rightarrow> if p = [] then None else Some p)"

text \<open>\<^verbatim>\<open>index.get(k)\<close> on a \<^verbatim>\<open>Map\<close>.\<close>

definition index_get :: "(string \<rightharpoonup> jsval) \<Rightarrow> string \<Rightarrow> jsval" where
  "index_get index k = (case index k of None \<Rightarrow> JUndefined | Some v \<Rightarrow> v)"

text \<open>
  Inside \<^verbatim>\<open>run\<close> of \<^verbatim>\<open>Cli.js\<close> the name \<^verbatim>\<open>path\<close> is the
  \<^verbatim>\<open>const path = await algorithm.findPath(FROM, TO)\<close> of the function's last lines, which
  hides the imported module \<^verbatim>\<open>path\<close> in the whole function body. The only earlier use,
  \<^verbatim>\<open>path.resolve(opts.index)\<close>, therefore reads a \<^verbatim>\<open>const\<close> before its declaration
  has run.
\<close>

definition path_before_declaration :: "error + unit" where
  "path_before_declaration = Inl ReferenceError"

text \<open>
  With an index: \<^verbatim>\<open>try { index = new Map(JSON.parse(await fsPromise.readFile(
  path.resolve(opts.index)))); FROM = index.get(opts.from); TO = index.get(opts.to) }
  catch (err) { logger.error(err); process.exit() }\<close>; the argument of \<^verbatim>\<open>readFile\<close> is
  evaluated before the call. Without an index, the location API.
\<close>

definition resolve_Cli :: "env \<Rightarrow> Cli_args \<Rightarrow> string \<Rightarrow> (jsval \<times> jsval) io" where
  "resolve_Cli env a tiles =
     (case index_path a of
        Some p \<Rightarrow>
          bind_io (emit (LogDebug ''Resolving locations from local index file'')) (\<lambda>_.
          catch_io
            (bind_io (lift path_before_declaration) (\<lambda>_.
             bind_io (emit (ReadFile p)) (\<lambda>_.
             bind_io (lift (readIndex env p)) (\<lambda>index.
             return_io (index_get index (cli_from a), index_get index (cli_to a))))))
            (\<lambda>err. bind_io (emit (LogError_value err)) (\<lambda>_. exit_io)))
      | None \<Rightarrow>
          bind_io (emit (LogDebug ''Resolving locations from location API'')) (\<lambda>_.
          resolve_remote env (location_url_Cli tiles (cli_from a))
                             (location_url_Cli tiles (cli_to a))))"

text \<open>The \<^verbatim>\<open>switch\<close> of \<^verbatim>\<open>Cli.js\<close>: two cases and \<^verbatim>\<open>default: process.exit()\<close>.\<close>

definition switch_Cli :: "Cli_args \<Rightarrow> string \<Rightarrow> engine option" where
  "switch_Cli a tiles =
     (let alg = opts_algorithm (cli_algorithm a);
          lg = logger_level (cli_debug a)
      in if alg = ''Dijkstra'' then
           Some \<lparr>cls = Dijkstra, zoom = cli_zoom a, tilesBaseURL = tiles,
                 distance = Node_length, heuristic = None, logger = lg,
                 quadtree_loaded = None\<rparr>
         else if alg = ''A*'' then
           Some \<lparr>cls = AStar, zoom = cli_zoom a, tilesBaseURL = tiles,
                 distance = Node_length, heuristic = Some (Utils_member ''harvesineDistance''),
                 logger = lg, quadtree_loaded = None\<rparr>
         else None)"

definition construct_Cli :: "Cli_args \<Rightarrow> string \<Rightarrow> engine io" where
  "construct_Cli a tiles =
     (case switch_Cli a tiles of
        None \<Rightarrow> exit_io
      | Some e \<Rightarrow> bind_io (emit (New e)) (\<lambda>_. return_io e))"

text \<open>The callback of \<^verbatim>\<open>path.map((p, i) => `${i + 1}. ${p.id}`)\<close>, from index \<open>i\<close> on.\<close>

fun collect_Cli :: "nat \<Rightarrow> jsval list \<Rightarrow> error + (nat \<times> jsval) list" where
  "collect_Cli i [] = Inr []"
| "collect_Cli i (p # ps) =
     bind_err (get_prop p ''id'') (\<lambda>ident.
     bind_err (collect_Cli (Suc i) ps) (\<lambda>path.
     Inr ((i + 1, ident) # path)))"

text \<open>
  \<^verbatim>\<open>console.log(path.map(...))\<close>, with no test of \<^verbatim>\<open>path\<close> before it. Only an array
  without an own \<^verbatim>\<open>map\<close> property has the \<^verbatim>\<open>map\<close> method.
\<close>

definition report_Cli :: "jsval \<Rightarrow> unit io" where
  "report_Cli path =
     bind_io (lift (case path of
                      JArr ps props \<Rightarrow>
                        if map_of props ''map'' = None then collect_Cli 0 ps
                        else Inl TypeError
                    | _ \<Rightarrow> Inl TypeError)) (\<lambda>labels.
     emit (ConsoleLog_path labels))"

definition run_Cli :: "env \<Rightarrow> Cli_args \<Rightarrow> unit io" where
  "run_Cli env a =
     (let tiles = tiles_base (cli_tiles a) in
      bind_io (check_tiles env (cli_tiles a)) (\<lambda>_.
      bind_io (resolve_Cli env a tiles) (\<lambda>(FROM0, TO0).
      bind_io (lift (decode_coordinates env FROM0)) (\<lambda>FROM.
      bind_io (lift (decode_coordinates env TO0)) (\<lambda>TO.
      bind_io (log_route FROM TO (opts_algorithm (cli_algorithm a))) (\<lambda>_.
      bind_io (construct_Cli a tiles) (\<lambda>algorithm.
      bind_io (call_findPath env algorithm FROM TO) report_Cli)))))))"


section \<open>Events of the routing engine\<close>

text \<open>The events that construct an engine or call one of its methods.\<close>

fun engine_event :: "event \<Rightarrow> bool" where
  "engine_event (New e) = True"
| "engine_event (LoadTileQuadTree e t) = True"
| "engine_event (FindPath e a b) = True"
| "engine_event ev = False"



section \<open>The quadtree index\<close>

text \<open>
  Modelled from the spec: the tile quadtree that \<^verbatim>\<open>loadTileQuadTree(threshold)\<close>
  builds. The method lives in \<^verbatim>\<open>lib/\<close>, which is not among the sources; the entry point
  only calls it. The spec (sections 3 and 4.3): a quadtree node has a bounding box, a
  node-count estimate and either four children (NW, NE, SW, SE) or a leaf marker; the
  tree is built, if a threshold is supplied, by probing node counts from a root bounding
  box, subdividing a region into four quadrants whenever its count exceeds the threshold,
  until the threshold is satisfied or a maximum zoom ceiling is hit.
\<close>

record bbox =
  west :: real
  south :: real
  east :: real
  north :: real

text \<open>
  Modelled from the spec: a quadtree node (section 3), a leaf or four children in the
  order NW, NE, SW, SE, with its bounding box, its zoom and its node count.
\<close>

datatype quadtree =
    QLeaf bbox nat nat
  | QNode bbox nat nat quadtree quadtree quadtree quadtree

text \<open>
  Modelled from the spec: the four quadrants a region is subdivided into (section 4.3),
  cut at the middle of the box.
\<close>

definition quadrant_NW :: "bbox \<Rightarrow> bbox" where
  "quadrant_NW b =
     \<lparr>west = west b, south = (south b + north b) / 2,
      east = (west b + east b) / 2, north = north b\<rparr>"

definition quadrant_NE :: "bbox \<Rightarrow> bbox" where
  "quadrant_NE b =
     \<lparr>west = (west b + east b) / 2, south = (south b + north b) / 2,
      east = east b, north = north b\<rparr>"

definition quadrant_SW :: "bbox \<Rightarrow> bbox" where
  "quadrant_SW b =
     \<lparr>west = west b, south = south b,
      east = (west b + east b) / 2, north = (south b + north b) / 2\<rparr>"

definition quadrant_SE :: "bbox \<Rightarrow> bbox" where
  "quadrant_SE b =
     \<lparr>west = (west b + east b) / 2, south = south b,
      east = east b, north = (south b + north b) / 2\<rparr>"

text \<open>
  Modelled from the spec: the recursive build of section 4.3. \<open>probe z b\<close> is the node
  count the tile source reports for the region \<open>b\<close> at zoom \<open>z\<close>; a region is
  subdivided when its count exceeds the threshold and the maximum zoom is not reached.
\<close>

function build_quadtree ::
  "(nat \<Rightarrow> bbox \<Rightarrow> nat) \<Rightarrow> nat \<Rightarrow> nat \<Rightarrow> nat \<Rightarrow> bbox \<Rightarrow> quadtree" where
  "build_quadtree probe threshold max_zoom z b =
     (if probe z b \<le> threshold \<or> max_zoom \<le> z then QLeaf b z (probe z b)
      else QNode b z (probe z b)
             (build_quadtree probe threshold max_zoom (Suc z) (quadrant_NW b))
             (build_quadtree probe threshold max_zoom (Suc z) (quadrant_NE b))
             (build_quadtree probe threshold max_zoom (Suc z) (quadrant_SW b))
             (build_quadtree probe threshold max_zoom (Suc z) (quadrant_SE b)))"
  by pat_completeness auto
termination
  by (relation "measure (\<lambda>(probe, threshold, max_zoom, z, b). max_zoom - z)") auto

declare build_quadtree.simps [simp del]

text \<open>
  Modelled from the spec: \<^verbatim>\<open>loadTileQuadTree(threshold)\<close> itself (section 4.3): the tree
  is built if a threshold is supplied; without one there is no tree and the engine uses
  the fixed zoom.
\<close>

definition loadTileQuadTree_spec ::
  "(nat \<Rightarrow> bbox \<Rightarrow> nat) \<Rightarrow> nat \<Rightarrow> nat \<Rightarrow> bbox \<Rightarrow> nat option \<Rightarrow> quadtree option" where
  "loadTileQuadTree_spec probe max_zoom z0 root_box threshold =
     (case threshold of
        None \<Rightarrow> None
      | Some t \<Rightarrow> Some (build_quadtree probe t max_zoom z0 root_box))"

text \<open>
  Modelled from the spec: the leaves of a tree (the nodes with the leaf marker), each as
  its box, zoom and node count.
\<close>

fun leaves :: "quadtree \<Rightarrow> (bbox \<times> nat \<times> nat) list" where
  "leaves (QLeaf b z n) = [(b, z, n)]"
| "leaves (QNode b z n nw ne sw se) = leaves nw @ leaves ne @ leaves sw @ leaves se"

section \<open>A concrete world for the worked examples\<close>

text \<open>
  A tile interface at \<^verbatim>\<open>http://tiles.test\<close> that knows three locations and answers
  \<^verbatim>\<open>null\<close> for the identifier \<^verbatim>\<open>ghost\<close>, on both URL shapes the entry points use, and
  an empty body for anything else; a local index with two of the locations; a WKT decoder
  that knows their points, answers \<^verbatim>\<open>null\<close> on any other string and throws on a value
  that is not a string; a \<^verbatim>\<open>Utils.haversineDistance\<close> that measures 0 between equal
  arguments; and an engine that finds no path to the location \<^verbatim>\<open>island\<close>.
\<close>

definition sample_location :: "string \<Rightarrow> string \<Rightarrow> jsval" where
  "sample_location ident wkt =
     JObj [(''id'', JStr ident), (''label'', JStr ident), (''wkt'', JStr wkt)]"

definition sample_point :: "real \<Rightarrow> real \<Rightarrow> jsval" where
  "sample_point lon lat =
     JObj [(''type'', JStr ''Point''), (''coordinates'', JArr [JNum lon, JNum lat] [])]"

definition sample_wktParse :: "jsval \<Rightarrow> error + jsval" where
  "sample_wktParse w =
     (case w of
        JStr s \<Rightarrow>
          if s = ''POINT (4 51)'' then Inr (sample_point 4 51)
          else if s = ''POINT (5 52)'' then Inr (sample_point 5 52)
          else if s = ''POINT (6 53)'' then Inr (sample_point 6 53)
          else Inr JNull
      | _ \<Rightarrow> Inl TypeError)"

definition sample_urls :: "(string \<times> jsval) list" where
  "sample_urls =
     [(''http://tiles.test/location?id=a%20b'', sample_location ''a b'' ''POINT (4 51)''),
      (''http://tiles.test/location?id=c'', sample_location ''c'' ''POINT (5 52)''),
      (''http://tiles.test/location?id=island'', sample_location ''island'' ''POINT (6 53)''),
      (''http://tiles.test/location?id=ghost'', JNull),
      (''http://tiles.test/location/a%20b'', sample_location ''a b'' ''POINT (4 51)''),
      (''http://tiles.test/location/c'', sample_location ''c'' ''POINT (5 52)''),
      (''http://tiles.test/location/island'', sample_location ''island'' ''POINT (6 53)''),
      (''http://tiles.test/location/ghost'', JNull)]"

definition sample_fetch :: "string \<Rightarrow> error + (error + jsval)" where
  "sample_fetch url =
     (case map_of sample_urls url of
        Some L \<Rightarrow> Inr (Inr L)
      | None \<Rightarrow> Inr (Inl (External ''Unexpected end of JSON input'')))"

definition sample_index :: "string \<rightharpoonup> jsval" where
  "sample_index =
     map_of [(''a b'', sample_location ''a b'' ''POINT (4 51)''),
             (''c'', sample_location ''c'' ''POINT (5 52)'')]"

definition sample_readIndex :: "string \<Rightarrow> error + (string \<rightharpoonup> jsval)" where
  "sample_readIndex p =
     (if p = ''index.json'' then Inr sample_index else Inl (External ''ENOENT''))"

definition sample_haversine :: "jsval list \<Rightarrow> error + jsval" where
  "sample_haversine args =
     (case args of
        [p, q] \<Rightarrow> Inr (JNum (if p = q then 0 else 157))
      | _ \<Rightarrow> Inl TypeError)"

definition sample_findPath :: "engine \<Rightarrow> jsval \<Rightarrow> jsval \<Rightarrow> error + jsval" where
  "sample_findPath e FROM TO =
     (if get_prop TO ''id'' = Inr (JStr ''island'') then Inr JNull
      else Inr (JObj [(''path'', JArr [FROM, TO] []),
                      (''metadata'', JObj [(''cost'', JNum 157)])]))"

definition sample_env :: env where
  "sample_env =
     \<lparr>isValidHttpUrl = (\<lambda>s. take 7 s = ''http://''),
      fetch = sample_fetch,
      readIndex = sample_readIndex,
      wktParse = sample_wktParse,
      utils_member = (\<lambda>n. if n = ''haversineDistance'' then Some sample_haversine else None),
      loadTileQuadTree = (\<lambda>e t. Inr ()),
      findPath = sample_findPath\<rparr>"

definition sample_TilePlanner_args :: TilePlanner_args where
  "sample_TilePlanner_args =
     \<lparr>tp_from = ''a b'', tp_to = ''c'', tp_zoom = ''14'', tp_tiles = ''http://tiles.test/'',
      tp_threshold = None, tp_algorithm = None, tp_nodeWeighted = False, tp_debug = False\<rparr>"

definition sample_Cli_args :: Cli_args where
  "sample_Cli_args =
     \<lparr>cli_from = ''a b'', cli_to = ''c'', cli_zoom = ''14'', cli_tiles = ''http://tiles.test/'',
      cli_algorithm = None, cli_index = None, cli_debug = False\<rparr>"

text \<open>A location of this world after \<^verbatim>\<open>coordinates\<close> has been assigned.\<close>

definition sample_located :: "string \<Rightarrow> string \<Rightarrow> real \<Rightarrow> real \<Rightarrow> jsval" where
  "sample_located ident wkt lon lat =
     JObj [(''id'', JStr ident), (''label'', JStr ident), (''wkt'', JStr wkt),
           (''coordinates'', JArr [JNum lon, JNum lat] [])]"

definition sample_node :: jsval where
  "sample_node =
     JObj [(''id'', JStr ''n1''), (''coordinates'', JArr [JNum 4, JNum 51] []),
           (''cost'', JNum 3), (''length'', JNum 7)]"

text \<open>The engines the two entry points construct in this world.\<close>

definition sample_NBAStar :: engine where
  "sample_NBAStar =
     \<lparr>cls = NBAStar, zoom = ''14'', tilesBaseURL = ''http://tiles.test'',
      distance = Utils_member ''haversineDistance'',
      heuristic = Some (Utils_member ''haversineDistance''),
      logger = ''info'', quadtree_loaded = None\<rparr>"

definition sample_Cli_Dijkstra :: engine where
  "sample_Cli_Dijkstra =
     \<lparr>cls = Dijkstra, zoom = ''14'', tilesBaseURL = ''http://tiles.test'',
      distance = Node_length, heuristic = None, logger = ''info'', quadtree_loaded = None\<rparr>"

text \<open>A region whose western half is dense: 8 nodes in any box that starts at the west
  edge, 1 elsewhere.\<close>

definition sample_probe :: "nat \<Rightarrow> bbox \<Rightarrow> nat" where
  "sample_probe z b = (if west b = 0 then 8 else 1)"

definition sample_root :: bbox where
  "sample_root = \<lparr>west = 0, south = 0, east = 4, north = 4\<rparr>"

section \<open>Reasoning about runs\<close>

lemma events_bind_io:
  "ev \<in> set (fst (bind_io m f)) \<longleftrightarrow>
     ev \<in> set (fst m) \<or> (\<exists>a. snd m = Ok a \<and> ev \<in> set (fst (f a)))"
  by (cases "snd m") (auto simp: bind_io_def)

lemma snd_bind_io_Ok:
  "snd (bind_io m f) = Ok b \<longleftrightarrow> (\<exists>a. snd m = Ok a \<and> snd (f a) = Ok b)"
  by (cases "snd m") (auto simp: bind_io_def)

lemma io_simps [simp]:
  "fst (return_io a) = []" "snd (return_io a) = Ok a"
  "fst (emit ev) = [ev]" "snd (emit ev) = Ok ()"
  "fst exit_io = []" "snd exit_io = Exited"
  "fst (lift r) = []"
  by (auto simp: return_io_def emit_def exit_io_def lift_def split: sum.splits)

lemma snd_lift [simp]:
  "snd (lift r) = Ok a \<longleftrightarrow> r = Inr a"
  "snd (lift r) = Threw e \<longleftrightarrow> r = Inl e"
  "snd (lift r) \<noteq> Exited"
  by (auto simp: lift_def split: sum.splits)

lemma lift_simps [simp]: "lift (Inl e) = ([], Threw e)" "lift (Inr a) = ([], Ok a)"
  by (simp_all add: lift_def)

lemma bind_io_simps [simp]:
  "bind_io (tr, Ok a) f = (tr @ fst (f a), snd (f a))"
  "bind_io (tr, Exited) f = (tr, Exited)"
  "bind_io (tr, Threw e) f = (tr, Threw e)"
  by (simp_all add: bind_io_def)


subsection \<open>The events of each step\<close>


lemma check_tiles_valid: "isValidHttpUrl env t \<Longrightarrow> check_tiles env t = ([], Ok ())"
  by (simp add: check_tiles_def return_io_def)

lemma events_check_tiles: "ev \<in> set (fst (check_tiles env t)) \<Longrightarrow> \<exists>s. ev = LogError s"
  by (auto simp: check_tiles_def events_bind_io split: if_splits)

lemma resolve_remote_eq:
  "resolve_remote env a b =
     (case fetch env a of
        Inl e \<Rightarrow> ([HttpGet a], Threw e)
      | Inr ra \<Rightarrow>
          (case fetch env b of
             Inl e \<Rightarrow> ([HttpGet a, HttpGet b], Threw e)
           | Inr rb \<Rightarrow>
               ([HttpGet a, HttpGet b],
                case ra of
                  Inl e \<Rightarrow> Threw e
                | Inr F \<Rightarrow> (case rb of Inl e \<Rightarrow> Threw e | Inr T \<Rightarrow> Ok (F, T)))))"
  by (simp add: resolve_remote_def emit_def return_io_def split: sum.splits)

lemma events_resolve_remote:
  "ev \<in> set (fst (resolve_remote env a b)) \<Longrightarrow> ev = HttpGet a \<or> ev = HttpGet b"
  by (auto simp: resolve_remote_def events_bind_io)

lemma snd_resolve_remote:
  "snd (resolve_remote env a b) = Ok (F, T) \<longleftrightarrow>
     fetch env a = Inr (Inr F) \<and> fetch env b = Inr (Inr T)"
  by (auto simp: resolve_remote_def snd_bind_io_Ok)

lemma fst_resolve_remote:
  "fst (resolve_remote env a b) =
     (case fetch env a of Inl err \<Rightarrow> [HttpGet a] | Inr r \<Rightarrow> [HttpGet a, HttpGet b])"
  by (simp add: resolve_remote_eq split: sum.splits)

lemma resolve_Cli_index:
  "index_path a = Some p \<Longrightarrow>
     resolve_Cli env a tiles =
       ([LogDebug ''Resolving locations from local index file'', LogError_value ReferenceError],
        Exited)"
  by (simp add: resolve_Cli_def path_before_declaration_def catch_io_def emit_def exit_io_def)

lemma events_resolve_Cli:
  "ev \<in> set (fst (resolve_Cli env a tiles)) \<Longrightarrow>
     ev = HttpGet (location_url_Cli tiles (cli_from a)) \<and> index_path a = None
     \<or> ev = HttpGet (location_url_Cli tiles (cli_to a)) \<and> index_path a = None
     \<or> \<not> engine_event ev \<and> (\<forall>u. ev \<noteq> HttpGet u)"
proof (cases "index_path a")
  case None
  assume "ev \<in> set (fst (resolve_Cli env a tiles))"
  with None show ?thesis
    by (auto simp: resolve_Cli_def events_bind_io dest!: events_resolve_remote)
next
  case (Some p)
  assume "ev \<in> set (fst (resolve_Cli env a tiles))"
  with Some show ?thesis
    by (auto simp: resolve_Cli_index)
qed

lemma events_log_route:
  "ev \<in> set (fst (log_route F T alg)) \<Longrightarrow> \<exists>x y. ev = LogInfo_route x y alg"
  by (auto simp: log_route_def events_bind_io)

lemma events_construct_TilePlanner:
  "ev \<in> set (fst (construct_TilePlanner a tiles)) \<Longrightarrow>
     \<exists>e. ev = New e \<and> switch_TilePlanner a tiles = Some e"
  by (auto simp: construct_TilePlanner_def events_bind_io split: option.splits)


lemma events_construct_Cli:
  "ev \<in> set (fst (construct_Cli a tiles)) \<Longrightarrow>
     \<exists>e. ev = New e \<and> switch_Cli a tiles = Some e"
  by (auto simp: construct_Cli_def events_bind_io split: option.splits)

lemma snd_construct_Cli:
  "snd (construct_Cli a tiles) =
     (case switch_Cli a tiles of None \<Rightarrow> Exited | Some e \<Rightarrow> Ok e)"
  by (auto simp: construct_Cli_def bind_io_def split: option.splits)

lemma events_call_loadTileQuadTree:
  "ev \<in> set (fst (call_loadTileQuadTree env tp thr)) \<Longrightarrow>
     \<exists>e. tp = Some e \<and> ev = LoadTileQuadTree e thr"
  by (auto simp: call_loadTileQuadTree_def events_bind_io split: option.splits)


lemma events_call_findPath:
  "ev \<in> set (fst (call_findPath env e F T)) \<Longrightarrow> ev = FindPath e F T"
  by (auto simp: call_findPath_def events_bind_io)

lemma events_report_TilePlanner:
  "ev \<in> set (fst (report_TilePlanner sp)) \<Longrightarrow>
     \<not> engine_event ev \<and> (\<forall>u. ev \<noteq> HttpGet u)"
  by (auto simp: report_TilePlanner_def events_bind_io split: if_splits)

lemma events_report_Cli:
  "ev \<in> set (fst (report_Cli sp)) \<Longrightarrow> \<not> engine_event ev \<and> (\<forall>u. ev \<noteq> HttpGet u)"
  by (auto simp: report_Cli_def events_bind_io split: if_splits)

lemmas events_steps =
  events_check_tiles events_resolve_remote events_resolve_Cli events_log_route
  events_construct_TilePlanner events_construct_Cli events_call_loadTileQuadTree
  events_call_findPath events_report_TilePlanner events_report_Cli

subsection \<open>Where an engine comes from, and which requests are sent\<close>

lemma New_run_TilePlanner:
  "New e \<in> set (fst (run_TilePlanner env a)) \<Longrightarrow>
     switch_TilePlanner a (tiles_base (tp_tiles a)) = Some e"
  by (auto simp: run_TilePlanner_def Let_def events_bind_io dest!: events_steps)

lemma New_run_Cli:
  "New e \<in> set (fst (run_Cli env a)) \<Longrightarrow> switch_Cli a (tiles_base (cli_tiles a)) = Some e"
  by (auto simp: run_Cli_def Let_def events_bind_io dest!: events_steps)

lemma HttpGet_run_TilePlanner:
  "HttpGet u \<in> set (fst (run_TilePlanner env a)) \<Longrightarrow>
     u = location_url_TilePlanner (tiles_base (tp_tiles a)) (tp_from a)
     \<or> u = location_url_TilePlanner (tiles_base (tp_tiles a)) (tp_to a)"
  by (auto simp: run_TilePlanner_def Let_def events_bind_io dest!: events_steps)

lemma HttpGet_run_Cli:
  "HttpGet u \<in> set (fst (run_Cli env a)) \<Longrightarrow>
     index_path a = None \<and>
     (u = location_url_Cli (tiles_base (cli_tiles a)) (cli_from a)
      \<or> u = location_url_Cli (tiles_base (cli_tiles a)) (cli_to a))"
  by (auto simp: run_Cli_def Let_def events_bind_io dest!: events_steps)

lemma tilesBaseURL_switch_TilePlanner:
  "switch_TilePlanner a tiles = Some e \<Longrightarrow> tilesBaseURL e = tiles"
  by (auto simp: switch_TilePlanner_def Let_def split: if_splits)

lemma tilesBaseURL_switch_Cli: "switch_Cli a tiles = Some e \<Longrightarrow> tilesBaseURL e = tiles"
  by (auto simp: switch_Cli_def Let_def split: if_splits)

lemma distance_switch_TilePlanner:
  "switch_TilePlanner a tiles = Some e \<Longrightarrow>
     distance e = distance_TilePlanner (tp_nodeWeighted a)"
  by (auto simp: switch_TilePlanner_def Let_def split: if_splits)

lemma distance_switch_Cli: "switch_Cli a tiles = Some e \<Longrightarrow> distance e = Node_length"
  by (auto simp: switch_Cli_def Let_def split: if_splits)





lemma not_Ok_Cli:
  assumes "switch_Cli a (tiles_base (cli_tiles a)) = None"
  shows "snd (run_Cli env a) \<noteq> Ok ()"
  using assms
  by (auto simp: run_Cli_def Let_def snd_bind_io_Ok snd_construct_Cli)



subsection \<open>The base URL\<close>

lemma endsWith_slash: "endsWith t ''/'' \<longleftrightarrow> t \<noteq> [] \<and> last t = CHR ''/''"
proof (cases t rule: rev_cases)
  case Nil
  then show ?thesis by (simp add: endsWith_def)
next
  case (snoc ys y)
  then show ?thesis by (auto simp: endsWith_def)
qed

lemma substring_butlast: "t \<noteq> [] \<Longrightarrow> substring t 0 (int (length t) - 1) = butlast t"
  by (cases t rule: rev_cases) (auto simp: substring_def Let_def)

lemma tiles_base_char:
  "tiles_base t = (if t \<noteq> [] \<and> last t = CHR ''/'' then butlast t else t)"
  by (simp add: tiles_base_def endsWith_slash substring_butlast)

subsection \<open>The quadtree\<close>

lemma leaves_build_quadtree:
  "z \<le> max_zoom \<Longrightarrow>
   (b, z', n) \<in> set (leaves (build_quadtree probe threshold max_zoom z b0)) \<Longrightarrow>
     n = probe z' b \<and> (n \<le> threshold \<or> z' = max_zoom)"
proof (induction probe threshold max_zoom z b0 rule: build_quadtree.induct)
  case (1 probe threshold max_zoom z b0)
  show ?case
  proof (cases "probe z b0 \<le> threshold \<or> max_zoom \<le> z")
    case True
    with "1.prems" show ?thesis
      by (auto simp: build_quadtree.simps [of probe threshold max_zoom z b0])
  next
    case False
    then have "Suc z \<le> max_zoom" by simp
    with False "1.IH" "1.prems"(2) show ?thesis
      by (auto simp: build_quadtree.simps [of probe threshold max_zoom z b0])
  qed
qed

subsection \<open>What reaches \<^verbatim>\<open>findPath\<close>\<close>

lemma get_coordinates_set_coordinates:
  "set_coordinates L c = Inr L' \<Longrightarrow> get_prop L' ''coordinates'' = Inr c"
  by (cases L) (auto simp: lookup_def update_conv')

lemma decode_coordinates_Inr:
  "decode_coordinates env L = Inr L' \<longleftrightarrow>
     (\<exists>c. wkt_coordinates env L = Inr c \<and> set_coordinates L c = Inr L')"
  by (auto simp: decode_coordinates_def bind_err_def split: sum.splits)

lemma decoded_by_wkt:
  assumes "fetch env u = Inr (Inr L0)" "decode_coordinates env L0 = Inr L"
  shows "\<exists>L0 c. fetch env u = Inr (Inr L0) \<and> wkt_coordinates env L0 = Inr c
           \<and> set_coordinates L0 c = Inr L \<and> get_prop L ''coordinates'' = Inr c"
  using assms get_coordinates_set_coordinates by (auto simp: decode_coordinates_Inr)

lemma FindPath_run_TilePlanner:
  assumes "FindPath e F T \<in> set (fst (run_TilePlanner env a))"
  shows "\<exists>F0 T0.
           fetch env (location_url_TilePlanner (tiles_base (tp_tiles a)) (tp_from a))
             = Inr (Inr F0)
           \<and> fetch env (location_url_TilePlanner (tiles_base (tp_tiles a)) (tp_to a))
             = Inr (Inr T0)
           \<and> decode_coordinates env F0 = Inr F \<and> decode_coordinates env T0 = Inr T"
  using assms
  by (auto simp: run_TilePlanner_def Let_def events_bind_io snd_resolve_remote
      dest!: events_steps)

lemma FindPath_run_Cli:
  assumes "FindPath e F T \<in> set (fst (run_Cli env a))" "index_path a = None"
  shows "\<exists>F0 T0.
           fetch env (location_url_Cli (tiles_base (cli_tiles a)) (cli_from a)) = Inr (Inr F0)
           \<and> fetch env (location_url_Cli (tiles_base (cli_tiles a)) (cli_to a)) = Inr (Inr T0)
           \<and> decode_coordinates env F0 = Inr F \<and> decode_coordinates env T0 = Inr T"
  using assms
  by (auto simp: run_Cli_def Let_def events_bind_io resolve_Cli_def snd_bind_io_Ok
      snd_resolve_remote dest!: events_steps)

lemma requests_run_TilePlanner:
  assumes "isValidHttpUrl env (tp_tiles a)"
  shows "HttpGet (location_url_TilePlanner (tiles_base (tp_tiles a)) (tp_from a))
           \<in> set (fst (run_TilePlanner env a))"
    and "fetch env (location_url_TilePlanner (tiles_base (tp_tiles a)) (tp_from a)) = Inr r \<Longrightarrow>
         HttpGet (location_url_TilePlanner (tiles_base (tp_tiles a)) (tp_to a))
           \<in> set (fst (run_TilePlanner env a))"
  using assms
  by (auto simp: run_TilePlanner_def Let_def events_bind_io check_tiles_valid fst_resolve_remote
      split: sum.splits)

lemma requests_run_Cli:
  assumes "isValidHttpUrl env (cli_tiles a)" "index_path a = None"
  shows "HttpGet (location_url_Cli (tiles_base (cli_tiles a)) (cli_from a))
           \<in> set (fst (run_Cli env a))"
    and "fetch env (location_url_Cli (tiles_base (cli_tiles a)) (cli_from a)) = Inr r \<Longrightarrow>
         HttpGet (location_url_Cli (tiles_base (cli_tiles a)) (cli_to a))
           \<in> set (fst (run_Cli env a))"
  using assms
  by (auto simp: run_Cli_def Let_def events_bind_io check_tiles_valid fst_resolve_remote
      resolve_Cli_def split: sum.splits)

subsection \<open>Locations that do not resolve\<close>







text \<open>
  With \<^verbatim>\<open>--index\<close>, \<^verbatim>\<open>Cli.js\<close> never reads the index file: the \<^verbatim>\<open>ReferenceError\<close> of
  \<^verbatim>\<open>path.resolve\<close> is caught, logged, and the process exits.
\<close>

lemma run_Cli_index:
  "isValidHttpUrl env (cli_tiles a) \<Longrightarrow> index_path a = Some p \<Longrightarrow>
     run_Cli env a =
       ([LogDebug ''Resolving locations from local index file'', LogError_value ReferenceError],
        Exited)"
  by (simp add: run_Cli_def Let_def check_tiles_valid resolve_Cli_index)

subsection \<open>The \<^verbatim>\<open>default\<close> case of \<^verbatim>\<open>Cli.js\<close>\<close>




section \<open>The claims\<close>

text \<open>
  C2, as the code has it. In \<^verbatim>\<open>TilePlanner.js\<close> the cost function given to the engine is
  \<^verbatim>\<open>Utils.haversineDistance\<close> by default and the \<^verbatim>\<open>cost\<close> field of its argument under
  \<^verbatim>\<open>--node-weighted\<close>. \<^verbatim>\<open>Cli.js\<close> has no such option: the cost function it gives to
  the engine is always the \<^verbatim>\<open>length\<close> field of its argument.
\<close>

theorem injected_cost_function:
  "(New e \<in> set (fst (run_TilePlanner env a)) \<longrightarrow>
      call_fn env (distance e) args =
        (if tp_nodeWeighted a then get_prop (arg0 args) ''cost''
         else call_fn env (Utils_member ''haversineDistance'') args))
   \<and> (New e' \<in> set (fst (run_Cli env c)) \<longrightarrow>
      call_fn env (distance e') args = get_prop (arg0 args) ''length'')"
proof -
  have "call_fn env (distance e) args =
        (if tp_nodeWeighted a then get_prop (arg0 args) ''cost''
         else call_fn env (Utils_member ''haversineDistance'') args)"
    if "New e \<in> set (fst (run_TilePlanner env a))"
    using New_run_TilePlanner [OF that] distance_switch_TilePlanner [of a _ e]
    by (simp add: distance_TilePlanner_def)
  moreover have "call_fn env (distance e') args = get_prop (arg0 args) ''length''"
    if "New e' \<in> set (fst (run_Cli env c))"
    using New_run_Cli [OF that] distance_switch_Cli [of c _ e'] by simp
  ultimately show ?thesis by blast
qed

text \<open>
  C2, witness: the default run of \<^verbatim>\<open>TilePlanner.js\<close> measures with
  \<^verbatim>\<open>Utils.haversineDistance\<close>, its node-weighted run reads the cost 3 of the sample node,
  and \<^verbatim>\<open>Cli.js\<close> reads the length 7.
\<close>

theorem injected_cost_function_witness:
  "New sample_NBAStar \<in> set (fst (run_TilePlanner sample_env sample_TilePlanner_args))
   \<and> call_fn sample_env (distance sample_NBAStar) [sample_node, sample_node] =
       call_fn sample_env (Utils_member ''haversineDistance'') [sample_node, sample_node]
   \<and> New (sample_NBAStar\<lparr>distance := Node_cost\<rparr>)
       \<in> set (fst (run_TilePlanner sample_env
                     (sample_TilePlanner_args\<lparr>tp_nodeWeighted := True\<rparr>)))
   \<and> call_fn sample_env (distance (sample_NBAStar\<lparr>distance := Node_cost\<rparr>)) [sample_node] =
       Inr (JNum 3)
   \<and> New sample_Cli_Dijkstra
        \<in> set (fst (run_Cli sample_env (sample_Cli_args\<lparr>cli_algorithm := Some ''Dijkstra''\<rparr>)))
   \<and> call_fn sample_env (distance sample_Cli_Dijkstra) [sample_node] = Inr (JNum 7)"
proof -
  have h1: "New sample_NBAStar
      \<in> set (fst (run_TilePlanner sample_env sample_TilePlanner_args))"
    by code_simp
  have h2: "New (sample_NBAStar\<lparr>distance := Node_cost\<rparr>)
       \<in> set (fst (run_TilePlanner sample_env
                     (sample_TilePlanner_args\<lparr>tp_nodeWeighted := True\<rparr>)))"
    by code_simp
  have h3: "New sample_Cli_Dijkstra
        \<in> set (fst (run_Cli sample_env (sample_Cli_args\<lparr>cli_algorithm := Some ''Dijkstra''\<rparr>)))"
    by code_simp
  have v1: "\<not> tp_nodeWeighted sample_TilePlanner_args"
    by (simp add: sample_TilePlanner_args_def)
  have v2: "get_prop (arg0 [sample_node]) ''cost'' = Inr (JNum 3)"
    by (simp add: arg0_def sample_node_def lookup_def)
  have v3: "get_prop (arg0 [sample_node]) ''length'' = Inr (JNum 7)"
    by (simp add: arg0_def sample_node_def lookup_def)
  note A = injected_cost_function [of sample_NBAStar sample_env sample_TilePlanner_args
      "[sample_node, sample_node]" sample_Cli_Dijkstra
      "sample_Cli_args\<lparr>cli_algorithm := Some ''Dijkstra''\<rparr>"]
  note B = injected_cost_function [of "sample_NBAStar\<lparr>distance := Node_cost\<rparr>" sample_env
      "sample_TilePlanner_args\<lparr>tp_nodeWeighted := True\<rparr>"
      "[sample_node]" sample_Cli_Dijkstra
      "sample_Cli_args\<lparr>cli_algorithm := Some ''Dijkstra''\<rparr>"]
  from A B h1 h2 h3 v1 v2 v3 show ?thesis by simp
qed

text \<open>
  C2 as stated fails in \<^verbatim>\<open>Cli.js\<close>: in its only mode the engine it constructs is given
  \<^verbatim>\<open>(node) => node.length\<close>, not \<^verbatim>\<open>Utils.haversineDistance\<close>; between the sample node and
  itself it answers 7, where the geographic distance is 0.
\<close>

theorem Cli_cost_is_length_counterexample:
  "New sample_Cli_Dijkstra
        \<in> set (fst (run_Cli sample_env (sample_Cli_args\<lparr>cli_algorithm := Some ''Dijkstra''\<rparr>)))
   \<and> distance sample_Cli_Dijkstra \<noteq> Utils_member ''haversineDistance''
   \<and> call_fn sample_env (distance sample_Cli_Dijkstra) [sample_node, sample_node] = Inr (JNum 7)
   \<and> call_fn sample_env (Utils_member ''haversineDistance'') [sample_node, sample_node]
       = Inr (JNum 0)"
  by code_simp




text \<open>
  C5 at the failing input: \<^verbatim>\<open>Cli.js\<close> without \<^verbatim>\<open>--algorithm\<close>. The option defaults to
  \<^verbatim>\<open>NBA*\<close>, which the \<^verbatim>\<open>switch\<close> of \<^verbatim>\<open>Cli.js\<close> sends to \<^verbatim>\<open>default: process.exit()\<close>: no
  engine is constructed and no path is computed. The \<^verbatim>\<open>switch\<close> of \<^verbatim>\<open>TilePlanner.js\<close>
  answers the same default with an \<^verbatim>\<open>NBAStar\<close> engine.
\<close>

theorem Cli_default_algorithm_exits:
  "switch_Cli (c\<lparr>cli_algorithm := None\<rparr>) tiles = None
   \<and> map_option cls (switch_TilePlanner (a\<lparr>tp_algorithm := None\<rparr>) tiles) = Some NBAStar
   \<and> run_Cli sample_env sample_Cli_args =
     ([LogDebug ''Resolving locations from location API'',
       HttpGet ''http://tiles.test/location/a%20b'',
       HttpGet ''http://tiles.test/location/c'',
       LogInfo_route (JStr ''a b'') (JStr ''c'') ''NBA*''],
      Exited)"
proof (intro conjI)
  show "switch_Cli (c\<lparr>cli_algorithm := None\<rparr>) tiles = None"
    by (simp add: switch_Cli_def opts_algorithm_def)
  show "map_option cls (switch_TilePlanner (a\<lparr>tp_algorithm := None\<rparr>) tiles) = Some NBAStar"
    by (simp add: switch_TilePlanner_def opts_algorithm_def)
  show "run_Cli sample_env sample_Cli_args =
     ([LogDebug ''Resolving locations from location API'',
       HttpGet ''http://tiles.test/location/a%20b'',
       HttpGet ''http://tiles.test/location/c'',
       LogInfo_route (JStr ''a b'') (JStr ''c'') ''NBA*''],
      Exited)"
    by code_simp
qed

text \<open>
  C9, on the quadtree as the spec describes it: every leaf of the tree that
  \<^verbatim>\<open>loadTileQuadTree(threshold)\<close> builds from a root at or below the maximum zoom holds the
  node count of its region, and that count is at most the threshold unless the leaf is at
  the maximum zoom.
\<close>

theorem quadtree_leaf_invariant:
  "z0 \<le> max_zoom \<Longrightarrow>
   loadTileQuadTree_spec probe max_zoom z0 root_box (Some threshold) = Some t \<Longrightarrow>
   (b, z, n) \<in> set (leaves t) \<Longrightarrow>
   n = probe z b \<and> (n \<le> threshold \<or> z = max_zoom)"
  using leaves_build_quadtree [of z0 max_zoom b z n probe threshold root_box]
  by (auto simp: loadTileQuadTree_spec_def)

text \<open>
  C9, witness: with threshold 2 and maximum zoom 2 over the sample region, the north-west
  leaf at zoom 2 still holds 8 nodes; it is a leaf only because it is at the maximum zoom.
\<close>

theorem quadtree_leaf_invariant_witness:
  "(0::nat) \<le> 2
   \<and> loadTileQuadTree_spec sample_probe 2 0 sample_root (Some 2)
       = Some (build_quadtree sample_probe 2 2 0 sample_root)
   \<and> (\<lparr>west = 0, south = 3, east = 1, north = 4\<rparr>, 2, 8)
       \<in> set (leaves (build_quadtree sample_probe 2 2 0 sample_root))
   \<and> (8::nat) = sample_probe 2 \<lparr>west = 0, south = 3, east = 1, north = 4\<rparr>
   \<and> \<not> (8::nat) \<le> 2 \<and> (2::nat) = 2"
proof -
  have h1: "(0::nat) \<le> 2" by simp
  have h2: "loadTileQuadTree_spec sample_probe 2 0 sample_root (Some 2)
       = Some (build_quadtree sample_probe 2 2 0 sample_root)"
    by (simp add: loadTileQuadTree_spec_def)
  have h3: "(\<lparr>west = 0, south = 3, east = 1, north = 4\<rparr>, 2, 8)
       \<in> set (leaves (build_quadtree sample_probe 2 2 0 sample_root))"
    by code_simp
  from quadtree_leaf_invariant [OF h1 h2 h3] h1 h2 h3 show ?thesis by simp
qed

text \<open>
  C10: the base URL is the \<^verbatim>\<open>--tiles\<close> value without its last character when that
  character is a slash (so one slash of two remains), and the value itself otherwise;
  every location request of either entry point starts with it, and every engine
  constructed is given it as \<^verbatim>\<open>tilesBaseURL\<close>.
\<close>

theorem tiles_base_strips_one_slash:
  "tiles_base (t @ ''/'') = t
   \<and> (t = [] \<or> last t \<noteq> CHR ''/'' \<longrightarrow> tiles_base t = t)
   \<and> (HttpGet u \<in> set (fst (run_TilePlanner env a)) \<longrightarrow>
        u = tiles_base (tp_tiles a) @ ''/location?id='' @ encodeURIComponent (tp_from a)
        \<or> u = tiles_base (tp_tiles a) @ ''/location?id='' @ encodeURIComponent (tp_to a))
   \<and> (New e \<in> set (fst (run_TilePlanner env a)) \<longrightarrow> tilesBaseURL e = tiles_base (tp_tiles a))
   \<and> (HttpGet u' \<in> set (fst (run_Cli env c)) \<longrightarrow>
        u' = tiles_base (cli_tiles c) @ ''/location/'' @ encodeURIComponent (cli_from c)
        \<or> u' = tiles_base (cli_tiles c) @ ''/location/'' @ encodeURIComponent (cli_to c))
   \<and> (New e' \<in> set (fst (run_Cli env c)) \<longrightarrow> tilesBaseURL e' = tiles_base (cli_tiles c))"
proof -
  have "tiles_base (t @ ''/'') = t"
    by (simp add: tiles_base_char)
  moreover have "t = [] \<or> last t \<noteq> CHR ''/'' \<longrightarrow> tiles_base t = t"
    by (auto simp: tiles_base_char)
  moreover have "HttpGet u \<in> set (fst (run_TilePlanner env a)) \<longrightarrow>
        u = tiles_base (tp_tiles a) @ ''/location?id='' @ encodeURIComponent (tp_from a)
        \<or> u = tiles_base (tp_tiles a) @ ''/location?id='' @ encodeURIComponent (tp_to a)"
    using HttpGet_run_TilePlanner [of u env a] by (auto simp: location_url_TilePlanner_def)
  moreover have "New e \<in> set (fst (run_TilePlanner env a)) \<longrightarrow>
        tilesBaseURL e = tiles_base (tp_tiles a)"
    using New_run_TilePlanner [of e env a] tilesBaseURL_switch_TilePlanner by blast
  moreover have "HttpGet u' \<in> set (fst (run_Cli env c)) \<longrightarrow>
        u' = tiles_base (cli_tiles c) @ ''/location/'' @ encodeURIComponent (cli_from c)
        \<or> u' = tiles_base (cli_tiles c) @ ''/location/'' @ encodeURIComponent (cli_to c)"
    using HttpGet_run_Cli [of u' env c] by (auto simp: location_url_Cli_def)
  moreover have "New e' \<in> set (fst (run_Cli env c)) \<longrightarrow>
        tilesBaseURL e' = tiles_base (cli_tiles c)"
    using New_run_Cli [of e' env c] tilesBaseURL_switch_Cli by blast
  ultimately show ?thesis by blast
qed

text \<open>
  C10, witness: \<^verbatim>\<open>http://tiles.test//\<close> keeps one slash, \<^verbatim>\<open>http://tiles.test\<close> is
  unchanged, and the runs on \<^verbatim>\<open>http://tiles.test/\<close> request and construct with
  \<^verbatim>\<open>http://tiles.test\<close>.
\<close>

theorem tiles_base_strips_one_slash_witness:
  "tiles_base (''http://tiles.test/'' @ ''/'') = ''http://tiles.test/''
   \<and> last ''http://tiles.test'' \<noteq> CHR ''/''
   \<and> tiles_base ''http://tiles.test'' = ''http://tiles.test''
   \<and> HttpGet ''http://tiles.test/location?id=c''
        \<in> set (fst (run_TilePlanner sample_env sample_TilePlanner_args))
   \<and> (''http://tiles.test/location?id=c'' =
        tiles_base (tp_tiles sample_TilePlanner_args) @ ''/location?id=''
          @ encodeURIComponent (tp_from sample_TilePlanner_args)
      \<or> ''http://tiles.test/location?id=c'' =
        tiles_base (tp_tiles sample_TilePlanner_args) @ ''/location?id=''
          @ encodeURIComponent (tp_to sample_TilePlanner_args))
   \<and> New sample_NBAStar \<in> set (fst (run_TilePlanner sample_env sample_TilePlanner_args))
   \<and> tilesBaseURL sample_NBAStar = tiles_base (tp_tiles sample_TilePlanner_args)
   \<and> HttpGet ''http://tiles.test/location/c''
        \<in> set (fst (run_Cli sample_env (sample_Cli_args\<lparr>cli_algorithm := Some ''Dijkstra''\<rparr>)))
   \<and> New sample_Cli_Dijkstra
        \<in> set (fst (run_Cli sample_env (sample_Cli_args\<lparr>cli_algorithm := Some ''Dijkstra''\<rparr>)))
   \<and> tilesBaseURL sample_Cli_Dijkstra = tiles_base (cli_tiles sample_Cli_args)"
proof -
  have h1: "last ''http://tiles.test'' \<noteq> CHR ''/''" by simp
  have h2: "HttpGet ''http://tiles.test/location?id=c''
        \<in> set (fst (run_TilePlanner sample_env sample_TilePlanner_args))"
    by code_simp
  have h3: "New sample_NBAStar \<in> set (fst (run_TilePlanner sample_env sample_TilePlanner_args))"
    by code_simp
  have h4: "HttpGet ''http://tiles.test/location/c''
        \<in> set (fst (run_Cli sample_env (sample_Cli_args\<lparr>cli_algorithm := Some ''Dijkstra''\<rparr>)))"
    by code_simp
  have h5: "New sample_Cli_Dijkstra
        \<in> set (fst (run_Cli sample_env (sample_Cli_args\<lparr>cli_algorithm := Some ''Dijkstra''\<rparr>)))"
    by code_simp
  note A = tiles_base_strips_one_slash [of "''http://tiles.test/''"
      "''http://tiles.test/location?id=c''" sample_env
      sample_TilePlanner_args sample_NBAStar "''http://tiles.test/location/c''"
      "sample_Cli_args\<lparr>cli_algorithm := Some ''Dijkstra''\<rparr>" sample_Cli_Dijkstra]
  note B = tiles_base_strips_one_slash [of "''http://tiles.test''"
      "''http://tiles.test/location?id=c''" sample_env
      sample_TilePlanner_args sample_NBAStar "''http://tiles.test/location/c''"
      "sample_Cli_args\<lparr>cli_algorithm := Some ''Dijkstra''\<rparr>" sample_Cli_Dijkstra]
  from A B h1 h2 h3 h4 h5 show ?thesis by simp
qed

text \<open>
  C3 at the failing input: \<^verbatim>\<open>Cli.js\<close> on a destination the engine finds no path to.
  \<^verbatim>\<open>findPath\<close> answers \<^verbatim>\<open>null\<close> and \<^verbatim>\<open>Cli.js\<close> calls \<^verbatim>\<open>path.map\<close> on it untested:
  the run ends with a \<^verbatim>\<open>TypeError\<close> and prints nothing, where \<^verbatim>\<open>TilePlanner.js\<close> tests
  the result and prints that no path was found.
\<close>

theorem Cli_no_path_throws:
  "run_Cli sample_env
     (sample_Cli_args\<lparr>cli_to := ''island'', cli_algorithm := Some ''Dijkstra''\<rparr>) =
     ([LogDebug ''Resolving locations from location API'',
       HttpGet ''http://tiles.test/location/a%20b'',
       HttpGet ''http://tiles.test/location/island'',
       LogInfo_route (JStr ''a b'') (JStr ''island'') ''Dijkstra'',
       New sample_Cli_Dijkstra,
       FindPath sample_Cli_Dijkstra (sample_located ''a b'' ''POINT (4 51)'' 4 51)
         (sample_located ''island'' ''POINT (6 53)'' 6 53)],
      Threw TypeError)
   \<and> findPath sample_env sample_Cli_Dijkstra (sample_located ''a b'' ''POINT (4 51)'' 4 51)
         (sample_located ''island'' ''POINT (6 53)'' 6 53) = Inr JNull
   \<and> report_Cli JNull = ([], Threw TypeError)
   \<and> report_Cli JUndefined = ([], Threw TypeError)
   \<and> report_TilePlanner JNull = ([ConsoleLog ''No path was found :(''], Ok ())
   \<and> report_TilePlanner JUndefined = ([ConsoleLog ''No path was found :(''], Ok ())"
  by code_simp

text \<open>
  C6, as the code has it. \<^verbatim>\<open>TilePlanner.js\<close> requests
  \<^verbatim>\<open>{base}/location?id={id}\<close> and \<^verbatim>\<open>Cli.js\<close>, when it resolves remotely (no index),
  \<^verbatim>\<open>{base}/location/{id}\<close>, with the identifier percent-encoded: these are the only
  requests of a run, the origin's is sent whenever the tile interface is valid and the
  destination's once the origin's has been answered. The locations a search is called
  with are the bodies of the two answers, each with \<^verbatim>\<open>coordinates\<close> set to
  \<^verbatim>\<open>wktParse(wkt).coordinates\<close>.
\<close>

theorem location_requests:
  "(HttpGet u \<in> set (fst (run_TilePlanner env a)) \<longrightarrow>
      u = tiles_base (tp_tiles a) @ ''/location?id='' @ encodeURIComponent (tp_from a)
      \<or> u = tiles_base (tp_tiles a) @ ''/location?id='' @ encodeURIComponent (tp_to a))
   \<and> (isValidHttpUrl env (tp_tiles a) \<longrightarrow>
      HttpGet (tiles_base (tp_tiles a) @ ''/location?id='' @ encodeURIComponent (tp_from a))
        \<in> set (fst (run_TilePlanner env a)))
   \<and> (isValidHttpUrl env (tp_tiles a)
       \<and> fetch env (tiles_base (tp_tiles a) @ ''/location?id='' @ encodeURIComponent (tp_from a))
           = Inr r \<longrightarrow>
      HttpGet (tiles_base (tp_tiles a) @ ''/location?id='' @ encodeURIComponent (tp_to a))
        \<in> set (fst (run_TilePlanner env a)))
   \<and> (FindPath e F T \<in> set (fst (run_TilePlanner env a)) \<longrightarrow>
      (\<exists>F0 c. fetch env (tiles_base (tp_tiles a) @ ''/location?id=''
                           @ encodeURIComponent (tp_from a)) = Inr (Inr F0)
          \<and> wkt_coordinates env F0 = Inr c \<and> set_coordinates F0 c = Inr F
          \<and> get_prop F ''coordinates'' = Inr c)
      \<and> (\<exists>T0 c. fetch env (tiles_base (tp_tiles a) @ ''/location?id=''
                           @ encodeURIComponent (tp_to a)) = Inr (Inr T0)
          \<and> wkt_coordinates env T0 = Inr c \<and> set_coordinates T0 c = Inr T
          \<and> get_prop T ''coordinates'' = Inr c))
   \<and> (HttpGet u' \<in> set (fst (run_Cli env c)) \<longrightarrow>
      index_path c = None
      \<and> (u' = tiles_base (cli_tiles c) @ ''/location/'' @ encodeURIComponent (cli_from c)
         \<or> u' = tiles_base (cli_tiles c) @ ''/location/'' @ encodeURIComponent (cli_to c)))
   \<and> (isValidHttpUrl env (cli_tiles c) \<and> index_path c = None \<longrightarrow>
      HttpGet (tiles_base (cli_tiles c) @ ''/location/'' @ encodeURIComponent (cli_from c))
        \<in> set (fst (run_Cli env c)))
   \<and> (isValidHttpUrl env (cli_tiles c) \<and> index_path c = None
       \<and> fetch env (tiles_base (cli_tiles c) @ ''/location/'' @ encodeURIComponent (cli_from c))
           = Inr r' \<longrightarrow>
      HttpGet (tiles_base (cli_tiles c) @ ''/location/'' @ encodeURIComponent (cli_to c))
        \<in> set (fst (run_Cli env c)))
   \<and> (FindPath e' F' T' \<in> set (fst (run_Cli env c)) \<and> index_path c = None \<longrightarrow>
      (\<exists>F0 c0. fetch env (tiles_base (cli_tiles c) @ ''/location/''
                           @ encodeURIComponent (cli_from c)) = Inr (Inr F0)
          \<and> wkt_coordinates env F0 = Inr c0 \<and> set_coordinates F0 c0 = Inr F'
          \<and> get_prop F' ''coordinates'' = Inr c0)
      \<and> (\<exists>T0 c0. fetch env (tiles_base (cli_tiles c) @ ''/location/''
                           @ encodeURIComponent (cli_to c)) = Inr (Inr T0)
          \<and> wkt_coordinates env T0 = Inr c0 \<and> set_coordinates T0 c0 = Inr T'
          \<and> get_prop T' ''coordinates'' = Inr c0))"
proof (intro conjI impI)
  assume "HttpGet u \<in> set (fst (run_TilePlanner env a))"
  then show "u = tiles_base (tp_tiles a) @ ''/location?id='' @ encodeURIComponent (tp_from a)
      \<or> u = tiles_base (tp_tiles a) @ ''/location?id='' @ encodeURIComponent (tp_to a)"
    using HttpGet_run_TilePlanner [of u env a] by (simp add: location_url_TilePlanner_def)
next
  assume "isValidHttpUrl env (tp_tiles a)"
  then show "HttpGet (tiles_base (tp_tiles a) @ ''/location?id='' @ encodeURIComponent (tp_from a))
        \<in> set (fst (run_TilePlanner env a))"
    using requests_run_TilePlanner(1) [of env a] by (simp add: location_url_TilePlanner_def)
next
  assume "isValidHttpUrl env (tp_tiles a)
       \<and> fetch env (tiles_base (tp_tiles a) @ ''/location?id='' @ encodeURIComponent (tp_from a))
           = Inr r"
  then show "HttpGet (tiles_base (tp_tiles a) @ ''/location?id='' @ encodeURIComponent (tp_to a))
        \<in> set (fst (run_TilePlanner env a))"
    using requests_run_TilePlanner(2) [of env a r] by (simp add: location_url_TilePlanner_def)
next
  assume "FindPath e F T \<in> set (fst (run_TilePlanner env a))"
  from FindPath_run_TilePlanner [OF this] obtain F0 T0 where
    *: "fetch env (location_url_TilePlanner (tiles_base (tp_tiles a)) (tp_from a)) = Inr (Inr F0)"
       "fetch env (location_url_TilePlanner (tiles_base (tp_tiles a)) (tp_to a)) = Inr (Inr T0)"
       "decode_coordinates env F0 = Inr F" "decode_coordinates env T0 = Inr T"
    by blast
  from decoded_by_wkt [OF *(1) *(3)]
  show "\<exists>F0 c. fetch env (tiles_base (tp_tiles a) @ ''/location?id=''
                           @ encodeURIComponent (tp_from a)) = Inr (Inr F0)
          \<and> wkt_coordinates env F0 = Inr c \<and> set_coordinates F0 c = Inr F
          \<and> get_prop F ''coordinates'' = Inr c"
    by (simp add: location_url_TilePlanner_def)
  from decoded_by_wkt [OF *(2) *(4)]
  show "\<exists>T0 c. fetch env (tiles_base (tp_tiles a) @ ''/location?id=''
                           @ encodeURIComponent (tp_to a)) = Inr (Inr T0)
          \<and> wkt_coordinates env T0 = Inr c \<and> set_coordinates T0 c = Inr T
          \<and> get_prop T ''coordinates'' = Inr c"
    by (simp add: location_url_TilePlanner_def)
next
  assume h: "HttpGet u' \<in> set (fst (run_Cli env c))"
  from HttpGet_run_Cli [OF h] show "index_path c = None" by simp
  from HttpGet_run_Cli [OF h]
  show "u' = tiles_base (cli_tiles c) @ ''/location/'' @ encodeURIComponent (cli_from c)
         \<or> u' = tiles_base (cli_tiles c) @ ''/location/'' @ encodeURIComponent (cli_to c)"
    by (simp add: location_url_Cli_def)
next
  assume "isValidHttpUrl env (cli_tiles c) \<and> index_path c = None"
  then show "HttpGet (tiles_base (cli_tiles c) @ ''/location/'' @ encodeURIComponent (cli_from c))
        \<in> set (fst (run_Cli env c))"
    using requests_run_Cli(1) [of env c] by (simp add: location_url_Cli_def)
next
  assume "isValidHttpUrl env (cli_tiles c) \<and> index_path c = None
       \<and> fetch env (tiles_base (cli_tiles c) @ ''/location/'' @ encodeURIComponent (cli_from c))
           = Inr r'"
  then show "HttpGet (tiles_base (cli_tiles c) @ ''/location/'' @ encodeURIComponent (cli_to c))
        \<in> set (fst (run_Cli env c))"
    using requests_run_Cli(2) [of env c r'] by (simp add: location_url_Cli_def)
next
  assume "FindPath e' F' T' \<in> set (fst (run_Cli env c)) \<and> index_path c = None"
  then have h1: "FindPath e' F' T' \<in> set (fst (run_Cli env c))" and h2: "index_path c = None"
    by simp_all
  from FindPath_run_Cli [OF h1 h2] obtain F0 T0 where
    *: "fetch env (location_url_Cli (tiles_base (cli_tiles c)) (cli_from c)) = Inr (Inr F0)"
       "fetch env (location_url_Cli (tiles_base (cli_tiles c)) (cli_to c)) = Inr (Inr T0)"
       "decode_coordinates env F0 = Inr F'" "decode_coordinates env T0 = Inr T'"
    by blast
  from decoded_by_wkt [OF *(1) *(3)]
  show "\<exists>F0 c0. fetch env (tiles_base (cli_tiles c) @ ''/location/''
                           @ encodeURIComponent (cli_from c)) = Inr (Inr F0)
          \<and> wkt_coordinates env F0 = Inr c0 \<and> set_coordinates F0 c0 = Inr F'
          \<and> get_prop F' ''coordinates'' = Inr c0"
    by (simp add: location_url_Cli_def)
  from decoded_by_wkt [OF *(2) *(4)]
  show "\<exists>T0 c0. fetch env (tiles_base (cli_tiles c) @ ''/location/''
                           @ encodeURIComponent (cli_to c)) = Inr (Inr T0)
          \<and> wkt_coordinates env T0 = Inr c0 \<and> set_coordinates T0 c0 = Inr T'
          \<and> get_prop T' ''coordinates'' = Inr c0"
    by (simp add: location_url_Cli_def)
qed

text \<open>
  C6, witness: from \<^verbatim>\<open>a b\<close> to \<^verbatim>\<open>c\<close>, \<^verbatim>\<open>TilePlanner.js\<close> requests
  \<^verbatim>\<open>/location?id=a%20b\<close> and \<^verbatim>\<open>/location?id=c\<close>, \<^verbatim>\<open>Cli.js\<close> requests
  \<^verbatim>\<open>/location/a%20b\<close> and \<^verbatim>\<open>/location/c\<close>, and the search is given the two locations
  with the coordinates of their points.
\<close>

theorem location_requests_witness:
  "HttpGet ''http://tiles.test/location?id=a%20b''
      \<in> set (fst (run_TilePlanner sample_env sample_TilePlanner_args))
   \<and> ''http://tiles.test/location?id=a%20b'' =
        tiles_base (tp_tiles sample_TilePlanner_args) @ ''/location?id=''
          @ encodeURIComponent (tp_from sample_TilePlanner_args)
   \<and> isValidHttpUrl sample_env (tp_tiles sample_TilePlanner_args)
   \<and> fetch sample_env ''http://tiles.test/location?id=a%20b''
        = Inr (Inr (sample_location ''a b'' ''POINT (4 51)''))
   \<and> HttpGet ''http://tiles.test/location?id=c''
      \<in> set (fst (run_TilePlanner sample_env sample_TilePlanner_args))
   \<and> FindPath (sample_NBAStar\<lparr>quadtree_loaded := Some None\<rparr>)
        (sample_located ''a b'' ''POINT (4 51)'' 4 51) (sample_located ''c'' ''POINT (5 52)'' 5 52)
      \<in> set (fst (run_TilePlanner sample_env sample_TilePlanner_args))
   \<and> wkt_coordinates sample_env (sample_location ''a b'' ''POINT (4 51)'')
        = Inr (JArr [JNum 4, JNum 51] [])
   \<and> get_prop (sample_located ''a b'' ''POINT (4 51)'' 4 51) ''coordinates''
        = Inr (JArr [JNum 4, JNum 51] [])
   \<and> index_path (sample_Cli_args\<lparr>cli_algorithm := Some ''Dijkstra''\<rparr>) = None
   \<and> isValidHttpUrl sample_env
        (cli_tiles (sample_Cli_args\<lparr>cli_algorithm := Some ''Dijkstra''\<rparr>))
   \<and> HttpGet ''http://tiles.test/location/a%20b''
      \<in> set (fst (run_Cli sample_env (sample_Cli_args\<lparr>cli_algorithm := Some ''Dijkstra''\<rparr>)))
   \<and> HttpGet ''http://tiles.test/location/c''
      \<in> set (fst (run_Cli sample_env (sample_Cli_args\<lparr>cli_algorithm := Some ''Dijkstra''\<rparr>)))
   \<and> FindPath sample_Cli_Dijkstra
        (sample_located ''a b'' ''POINT (4 51)'' 4 51) (sample_located ''c'' ''POINT (5 52)'' 5 52)
      \<in> set (fst (run_Cli sample_env (sample_Cli_args\<lparr>cli_algorithm := Some ''Dijkstra''\<rparr>)))
   \<and> (\<exists>T0 c0. fetch sample_env ''http://tiles.test/location/c'' = Inr (Inr T0)
          \<and> wkt_coordinates sample_env T0 = Inr c0
          \<and> set_coordinates T0 c0 = Inr (sample_located ''c'' ''POINT (5 52)'' 5 52)
          \<and> get_prop (sample_located ''c'' ''POINT (5 52)'' 5 52) ''coordinates'' = Inr c0)"
proof -
  let ?c = "sample_Cli_args\<lparr>cli_algorithm := Some ''Dijkstra''\<rparr>"
  let ?F = "sample_located ''a b'' ''POINT (4 51)'' 4 51"
  let ?T = "sample_located ''c'' ''POINT (5 52)'' 5 52"
  have u1: "''http://tiles.test/location?id=a%20b'' =
        tiles_base (tp_tiles sample_TilePlanner_args) @ ''/location?id=''
          @ encodeURIComponent (tp_from sample_TilePlanner_args)"
    by code_simp
  have u2: "''http://tiles.test/location?id=c'' =
        tiles_base (tp_tiles sample_TilePlanner_args) @ ''/location?id=''
          @ encodeURIComponent (tp_to sample_TilePlanner_args)"
    by code_simp
  have u3: "''http://tiles.test/location/a%20b'' =
        tiles_base (cli_tiles ?c) @ ''/location/'' @ encodeURIComponent (cli_from ?c)"
    by code_simp
  have u4: "''http://tiles.test/location/c'' =
        tiles_base (cli_tiles ?c) @ ''/location/'' @ encodeURIComponent (cli_to ?c)"
    by code_simp
  have h1: "HttpGet ''http://tiles.test/location?id=a%20b''
      \<in> set (fst (run_TilePlanner sample_env sample_TilePlanner_args))"
    by code_simp
  have h2: "isValidHttpUrl sample_env (tp_tiles sample_TilePlanner_args)"
    by code_simp
  have h3: "fetch sample_env ''http://tiles.test/location?id=a%20b''
        = Inr (Inr (sample_location ''a b'' ''POINT (4 51)''))"
    by code_simp
  have h4: "FindPath (sample_NBAStar\<lparr>quadtree_loaded := Some None\<rparr>) ?F ?T
      \<in> set (fst (run_TilePlanner sample_env sample_TilePlanner_args))"
    by code_simp
  have h5: "index_path ?c = None"
    by code_simp
  have h6: "isValidHttpUrl sample_env (cli_tiles ?c)"
    by code_simp
  have h7: "fetch sample_env ''http://tiles.test/location/a%20b''
        = Inr (Inr (sample_location ''a b'' ''POINT (4 51)''))"
    by code_simp
  have h8: "FindPath sample_Cli_Dijkstra ?F ?T \<in> set (fst (run_Cli sample_env ?c))"
    by code_simp
  have v1: "wkt_coordinates sample_env (sample_location ''a b'' ''POINT (4 51)'')
        = Inr (JArr [JNum 4, JNum 51] [])"
    by code_simp
  have v2: "get_prop ?F ''coordinates'' = Inr (JArr [JNum 4, JNum 51] [])"
    by code_simp
  note A = location_requests [of "''http://tiles.test/location?id=a%20b''" sample_env
      sample_TilePlanner_args "Inr (sample_location ''a b'' ''POINT (4 51)'')"
      "sample_NBAStar\<lparr>quadtree_loaded := Some None\<rparr>" ?F ?T
      "''http://tiles.test/location/a%20b''" ?c
      "Inr (sample_location ''a b'' ''POINT (4 51)'')" sample_Cli_Dijkstra ?F ?T,
      folded u1 u2 u3 u4]
  from A h1 h2 h3 h4 h5 h6 h7 h8 v1 v2 have rest:
   "isValidHttpUrl sample_env (tp_tiles sample_TilePlanner_args)
   \<and> fetch sample_env ''http://tiles.test/location?id=a%20b''
        = Inr (Inr (sample_location ''a b'' ''POINT (4 51)''))
   \<and> HttpGet ''http://tiles.test/location?id=c''
      \<in> set (fst (run_TilePlanner sample_env sample_TilePlanner_args))
   \<and> FindPath (sample_NBAStar\<lparr>quadtree_loaded := Some None\<rparr>)
        (sample_located ''a b'' ''POINT (4 51)'' 4 51) (sample_located ''c'' ''POINT (5 52)'' 5 52)
      \<in> set (fst (run_TilePlanner sample_env sample_TilePlanner_args))
   \<and> wkt_coordinates sample_env (sample_location ''a b'' ''POINT (4 51)'')
        = Inr (JArr [JNum 4, JNum 51] [])
   \<and> get_prop (sample_located ''a b'' ''POINT (4 51)'' 4 51) ''coordinates''
        = Inr (JArr [JNum 4, JNum 51] [])
   \<and> index_path (sample_Cli_args\<lparr>cli_algorithm := Some ''Dijkstra''\<rparr>) = None
   \<and> isValidHttpUrl sample_env
        (cli_tiles (sample_Cli_args\<lparr>cli_algorithm := Some ''Dijkstra''\<rparr>))
   \<and> HttpGet ''http://tiles.test/location/a%20b''
      \<in> set (fst (run_Cli sample_env (sample_Cli_args\<lparr>cli_algorithm := Some ''Dijkstra''\<rparr>)))
   \<and> HttpGet ''http://tiles.test/location/c''
      \<in> set (fst (run_Cli sample_env (sample_Cli_args\<lparr>cli_algorithm := Some ''Dijkstra''\<rparr>)))
   \<and> FindPath sample_Cli_Dijkstra
        (sample_located ''a b'' ''POINT (4 51)'' 4 51) (sample_located ''c'' ''POINT (5 52)'' 5 52)
      \<in> set (fst (run_Cli sample_env (sample_Cli_args\<lparr>cli_algorithm := Some ''Dijkstra''\<rparr>)))
   \<and> (\<exists>T0 c0. fetch sample_env ''http://tiles.test/location/c'' = Inr (Inr T0)
          \<and> wkt_coordinates sample_env T0 = Inr c0
          \<and> set_coordinates T0 c0 = Inr (sample_located ''c'' ''POINT (5 52)'' 5 52)
          \<and> get_prop (sample_located ''c'' ''POINT (5 52)'' 5 52) ''coordinates'' = Inr c0)"
    by simp
  show ?thesis by (rule conjI [OF h1 conjI [OF u1 rest]])
qed

text \<open>
  C6 as stated fails in \<^verbatim>\<open>Cli.js\<close>: resolving \<^verbatim>\<open>a b\<close> and \<^verbatim>\<open>c\<close> remotely, it requests
  \<^verbatim>\<open>/location/a%20b\<close> and \<^verbatim>\<open>/location/c\<close>, and never \<^verbatim>\<open>/location?id=...\<close>.
\<close>

theorem Cli_location_url_counterexample:
  "fst (run_Cli sample_env sample_Cli_args) =
     [LogDebug ''Resolving locations from location API'',
      HttpGet ''http://tiles.test/location/a%20b'',
      HttpGet ''http://tiles.test/location/c'',
      LogInfo_route (JStr ''a b'') (JStr ''c'') ''NBA*'']
   \<and> tiles_base (cli_tiles sample_Cli_args) @ ''/location?id=''
         @ encodeURIComponent (cli_from sample_Cli_args) = ''http://tiles.test/location?id=a%20b''
   \<and> HttpGet ''http://tiles.test/location?id=a%20b''
        \<notin> set (fst (run_Cli sample_env sample_Cli_args))
   \<and> HttpGet ''http://tiles.test/location?id=c''
        \<notin> set (fst (run_Cli sample_env sample_Cli_args))"
  by code_simp




end
